theory Spec2Isabelle
  imports Main "HOL-Library.AList"
begin

section \<open>Data model\<close>

text \<open>
  The interfaces \<^verbatim>\<open>Texture\<close>, \<^verbatim>\<open>Manifest\<close> and \<^verbatim>\<open>Project\<close> of src/lib/project.ts, and
  the two private fields of the class \<^verbatim>\<open>Path\<close> of the module \<^verbatim>\<open>$lib/io\<close>. The fields
  \<^verbatim>\<open>id\<close> and \<^verbatim>\<open>size\<close> are suffixed, since HOL has constants of these names.
  Timestamps are the clock's readings (milliseconds) rather than their ISO-8601
  renderings.
\<close>

record texture =
  id_texture :: string
  originalName :: string
  extension :: string
  size_texture :: "nat option"

record manifest =
  version :: string
  name :: string
  id_manifest :: string
  rackSize :: nat
  textures :: "texture list"
  createdAt :: nat
  modifiedAt :: nat

record Path =
  basePathParts :: "string list"
  pathParts :: "string list"

record project =
  path :: Path
  manifest :: manifest

section \<open>Rejections\<close>

text \<open>
  Every failure of the source is a rejected promise. The constructors name the
  rejections the source raises itself, by the message it gives them, and the
  two kinds raised below it:
  \<^item> \<open>AlreadyExists\<close>: \<^verbatim>\<open>Path.touch\<close> ("The file at this path already exists...")
    and \<^verbatim>\<open>Path.mkdir\<close> ("The path must not exist to create a directory there...");
  \<^item> \<open>NotFound\<close>: \<^verbatim>\<open>Path.remove\<close> ("The file or directory does not exist...");
  \<^item> \<open>InvalidProject\<close>: \<^verbatim>\<open>openProject\<close> ("The given project does not have a manifest
    folder and cannot be opened.") and \<^verbatim>\<open>importProject\<close> ("Invalid project folder:
    manifest.json not found");
  \<^item> \<open>UserCancelled\<close>: \<^verbatim>\<open>importProject\<close> ("User closed file select prompt.");
  \<^item> \<open>IOFailure\<close>: a rejection of a collaborator call (the file-system plugin, the
    path API, the directory-copy command);
  \<^item> \<open>ParseFailure\<close>: \<^verbatim>\<open>JSON.parse\<close> throwing.
\<close>

datatype error =
  AlreadyExists | NotFound | InvalidProject | UserCancelled | IOFailure | ParseFailure

section \<open>The world the code runs in\<close>

text \<open>
  What a file holds. \<^verbatim>\<open>JSON.stringify\<close> of a manifest or of a project is kept as the
  value it renders; \<^verbatim>\<open>JSON.parse\<close> gives the value back and throws on any other
  text.
\<close>

datatype content =
  Blank | Manifest_json manifest | Project_json project | Raw string

datatype node = Dir | File content

text \<open>
  The file system maps a location string to its node, in order of creation.
  The picker field is what the user answers at the next prompt (\<open>None\<close>: the
  prompt is dismissed). The clock and the identifier generator are read through
  a counter: the \<open>k\<close>-th reading is \<open>clock k\<close>, the \<open>k\<close>-th identifier is
  \<open>uuids k\<close>. The last field collects the rejections of promises that nothing
  awaits.
\<close>

record world =
  files :: "(string \<times> node) list"
  picker :: "string option"
  clock :: "nat \<Rightarrow> nat"
  clock_reads :: nat
  uuids :: "nat \<Rightarrow> string"
  uuid_count :: nat
  unhandled :: "error list"

type_synonym 'a promise = "world \<Rightarrow> (error + 'a) \<times> world"

definition new_Date :: "world \<Rightarrow> nat \<times> world" where
  "new_Date w = (clock w (clock_reads w), w\<lparr>clock_reads := Suc (clock_reads w)\<rparr>)"

definition generateUuid :: "world \<Rightarrow> string \<times> world" where
  "generateUuid w = (uuids w (uuid_count w), w\<lparr>uuid_count := Suc (uuid_count w)\<rparr>)"

text \<open>
  A call whose promise is not awaited: it runs, its result is dropped, and a
  rejection reaches no caller. The source does not say when the effects of such
  a call land relative to the calls after it. \<open>detached\<close> lets them land at the
  point of the call; \<open>landed\<close> (below, with \<^verbatim>\<open>createProject\<close>) is the other order, in
  which an awaited call issued later lands first.
\<close>

definition detached :: "'a promise \<Rightarrow> world \<Rightarrow> world" where
  "detached m w =
     (case m w of
        (Inl e, w') \<Rightarrow> w'\<lparr>unhandled := unhandled w' @ [e]\<rparr>
      | (Inr x, w') \<Rightarrow> w')"

section \<open>Collaborators: the path API\<close>

text \<open>
  \<^verbatim>\<open>sep\<close>, \<^verbatim>\<open>join\<close> and \<^verbatim>\<open>basename\<close> of the platform's path API, on a platform whose
  separator is the slash. \<^verbatim>\<open>join\<close> ends every part with a separator,
  concatenates, drops empty and \<open>.\<close> components, lets \<open>..\<close> drop the component
  before it, and answers \<open>.\<close> for the empty location.
\<close>

definition sep :: char where
  "sep = CHR ''/''"

fun str_split :: "char \<Rightarrow> string \<Rightarrow> string list" where
  "str_split c [] = [[]]"
| "str_split c (x # xs) =
     (if x = c then [] # str_split c xs
      else (case str_split c xs of [] \<Rightarrow> [[x]] | s # ss \<Rightarrow> (x # s) # ss))"

fun unsplit :: "char \<Rightarrow> string list \<Rightarrow> string" where
  "unsplit c [] = []"
| "unsplit c [s] = s"
| "unsplit c (s # t # ss) = s @ c # unsplit c (t # ss)"

definition with_sep :: "string \<Rightarrow> string" where
  "with_sep p = (if p = [] then [sep] else if last p = sep then p else p @ [sep])"

fun normalize_components :: "string list \<Rightarrow> string list \<Rightarrow> string list" where
  "normalize_components acc [] = acc"
| "normalize_components acc (c # cs) =
     (if c = [] \<or> c = ''.'' then normalize_components acc cs
      else if c = ''..'' then normalize_components (butlast acc) cs
      else normalize_components (acc @ [c]) cs)"

definition is_absolute :: "string \<Rightarrow> bool" where
  "is_absolute p = (case p of [] \<Rightarrow> False | c # cs \<Rightarrow> c = sep)"

definition path_of_components :: "bool \<Rightarrow> string list \<Rightarrow> string" where
  "path_of_components rooted cs = (if rooted then [sep] else []) @ unsplit sep cs"

definition rawJoinPath :: "string list \<Rightarrow> string" where
  "rawJoinPath parts =
     (let s = concat (map with_sep parts);
          p = path_of_components (is_absolute s) (normalize_components [] (str_split sep s))
      in if p = [] then ''.'' else p)"

definition path_components :: "string \<Rightarrow> string list" where
  "path_components p = filter (\<lambda>c. c \<noteq> []) (str_split sep p)"

definition raw_basename :: "string \<Rightarrow> error + string" where
  "raw_basename p =
     (case path_components p of [] \<Rightarrow> Inl IOFailure | c # cs \<Rightarrow> Inr (last (c # cs)))"

section \<open>Collaborators: the file system\<close>

text \<open>
  The calls of the file-system plugin the source makes, on the in-memory file
  system of the world: existence check, directory creation, file creation, text
  read and write, file copy, removal and directory listing. A location with at
  most one component lies directly in the base directory, which always exists.
  A call is rejected with \<open>IOFailure\<close> where the plugin rejects: a missing
  parent directory, a file where a directory is needed (or a directory where a
  file is), a missing source, a directory that is not empty removed without
  \<^verbatim>\<open>recursive\<close>.
\<close>

type_synonym fs = "(string \<times> node) list"

definition raw_exists :: "fs \<Rightarrow> string \<Rightarrow> bool" where
  "raw_exists fs p = (map_of fs p \<noteq> None)"

definition parent_dir :: "string \<Rightarrow> string option" where
  "parent_dir p =
     (case path_components p of
        [] \<Rightarrow> None
      | [c] \<Rightarrow> None
      | c # d # cs \<Rightarrow> Some (path_of_components (is_absolute p) (butlast (c # d # cs))))"

definition parent_is_dir :: "fs \<Rightarrow> string \<Rightarrow> bool" where
  "parent_is_dir fs p =
     (case parent_dir p of None \<Rightarrow> True | Some q \<Rightarrow> map_of fs q = Some Dir)"

definition is_under :: "string \<Rightarrow> string \<Rightarrow> bool" where
  "is_under p q = (take (Suc (length p)) q = p @ [sep])"

fun prefix_paths :: "bool \<Rightarrow> string list \<Rightarrow> string list \<Rightarrow> string list" where
  "prefix_paths rooted seen [] = []"
| "prefix_paths rooted seen (c # cs) =
     path_of_components rooted (seen @ [c]) # prefix_paths rooted (seen @ [c]) cs"

fun mkdir_all :: "string list \<Rightarrow> fs \<Rightarrow> fs option" where
  "mkdir_all [] fs = Some fs"
| "mkdir_all (p # ps) fs =
     (case map_of fs p of
        None \<Rightarrow> mkdir_all ps (AList.update p Dir fs)
      | Some Dir \<Rightarrow> mkdir_all ps fs
      | Some (File c) \<Rightarrow> None)"

definition raw_mkdir :: "string \<Rightarrow> bool \<Rightarrow> unit promise" where
  "raw_mkdir p recursive w =
     (if recursive then
        (case mkdir_all (prefix_paths (is_absolute p) [] (path_components p)) (files w) of
           None \<Rightarrow> (Inl IOFailure, w)
         | Some fs' \<Rightarrow> (Inr (), w\<lparr>files := fs'\<rparr>))
      else if raw_exists (files w) p then (Inl IOFailure, w)
      else if parent_is_dir (files w) p
        then (Inr (), w\<lparr>files := AList.update p Dir (files w)\<rparr>)
      else (Inl IOFailure, w))"

definition put_file :: "string \<Rightarrow> content \<Rightarrow> unit promise" where
  "put_file p c w =
     (if map_of (files w) p = Some Dir then (Inl IOFailure, w)
      else if parent_is_dir (files w) p
        then (Inr (), w\<lparr>files := AList.update p (File c) (files w)\<rparr>)
      else (Inl IOFailure, w))"

definition raw_createFile :: "string \<Rightarrow> unit promise" where
  "raw_createFile p = put_file p Blank"

definition rawWriteTextFile :: "string \<Rightarrow> content \<Rightarrow> unit promise" where
  "rawWriteTextFile p c = put_file p c"

definition readTextFile :: "string \<Rightarrow> content promise" where
  "readTextFile p w =
     (case map_of (files w) p of
        Some (File c) \<Rightarrow> (Inr c, w)
      | Some Dir \<Rightarrow> (Inl IOFailure, w)
      | None \<Rightarrow> (Inl IOFailure, w))"

definition copyFile :: "string \<Rightarrow> string \<Rightarrow> unit promise" where
  "copyFile src dst w =
     (case map_of (files w) src of
        Some (File c) \<Rightarrow> put_file dst c w
      | Some Dir \<Rightarrow> (Inl IOFailure, w)
      | None \<Rightarrow> (Inl IOFailure, w))"

definition delete_tree :: "string \<Rightarrow> fs \<Rightarrow> fs" where
  "delete_tree p fs = filter (\<lambda>(q, n). q \<noteq> p \<and> \<not> is_under p q) fs"

definition raw_removeFileOrDir :: "string \<Rightarrow> bool \<Rightarrow> unit promise" where
  "raw_removeFileOrDir p recursive w =
     (case map_of (files w) p of
        None \<Rightarrow> (Inl IOFailure, w)
      | Some (File c) \<Rightarrow> (Inr (), w\<lparr>files := delete_tree p (files w)\<rparr>)
      | Some Dir \<Rightarrow>
          (if recursive then (Inr (), w\<lparr>files := delete_tree p (files w)\<rparr>)
           else if list_ex (\<lambda>(q, n). is_under p q) (files w) then (Inl IOFailure, w)
           else (Inr (), w\<lparr>files := delete_tree p (files w)\<rparr>)))"

record DirEntry =
  name_entry :: string
  isDirectory :: bool

definition dir_entry :: "string \<times> node \<Rightarrow> DirEntry" where
  "dir_entry e =
     \<lparr>name_entry = (case path_components (fst e) of [] \<Rightarrow> [] | c # cs \<Rightarrow> last (c # cs)),
      isDirectory = (snd e = Dir)\<rparr>"

definition raw_readDir :: "string \<Rightarrow> DirEntry list promise" where
  "raw_readDir p w =
     (case map_of (files w) p of
        Some Dir \<Rightarrow>
          (Inr (map dir_entry (filter (\<lambda>(q, n). parent_dir q = Some p) (files w))), w)
      | Some (File c) \<Rightarrow> (Inl IOFailure, w)
      | None \<Rightarrow> (Inl IOFailure, w))"

text \<open>
  Modelled from the spec: the command \<^verbatim>\<open>copy_directory\<close> that \<^verbatim>\<open>rawCopyDir\<close> invokes
  is not among the sources; the spec names it a recursive directory copy. The
  source must be a directory; it and everything under it is written under the
  destination.
\<close>

definition rawCopyDir :: "string \<Rightarrow> string \<Rightarrow> unit promise" where
  "rawCopyDir fromPath toPath w =
     (case map_of (files w) fromPath of
        Some Dir \<Rightarrow>
          (Inr (),
           w\<lparr>files :=
               fold (\<lambda>(q, n) fs. AList.update (toPath @ drop (length fromPath) q) n fs)
                 (filter (\<lambda>(q, n). q = fromPath \<or> is_under fromPath q) (files w))
                 (files w)\<rparr>)
      | Some (File c) \<Rightarrow> (Inl IOFailure, w)
      | None \<Rightarrow> (Inl IOFailure, w))"

text \<open>
  \<^verbatim>\<open>JSON.parse\<close> of a file's text, read as a manifest or as a project. The model
  covers the texts the code writes itself and the empty text: a stored manifest
  (or project) is given back, the empty text makes \<^verbatim>\<open>JSON.parse\<close> throw. The source
  does not validate what it parses: any other valid JSON would be returned and
  used as a manifest with fields missing. Such a manifest is not a value of the
  record type and is left out: the model answers every other content with
  \<open>ParseFailure\<close>, and no property below is stated about such a file.
\<close>

definition parse_manifest :: "content \<Rightarrow> error + manifest" where
  "parse_manifest c = (case c of Manifest_json m \<Rightarrow> Inr m | _ \<Rightarrow> Inl ParseFailure)"

definition parse_project :: "content \<Rightarrow> error + project" where
  "parse_project c = (case c of Project_json p \<Rightarrow> Inr p | _ \<Rightarrow> Inl ParseFailure)"

section \<open>The class Path (module \<^verbatim>\<open>$lib/io\<close>)\<close>

text \<open>
  The constructor takes an array of parts or a string, and an optional base. A
  primitive string is not an instance of \<^verbatim>\<open>String\<close>, so the constructor keeps it as
  it is; the only reads of the field are the spread \<^verbatim>\<open>...this.pathParts\<close>, which
  yields the string's characters one by one, and the index \<^verbatim>\<open>[-1]\<close>. A primitive
  string is therefore kept as the list of its one-character strings. Only a
  \<^verbatim>\<open>String\<close> object is split at the separator.
\<close>

datatype path_arg = Parts "string list" | Primitive string | Boxed string

datatype base_arg = BasePath Path | BaseString string

definition new_Path :: "path_arg \<Rightarrow> base_arg option \<Rightarrow> Path" where
  "new_Path strPathParts basePath =
     \<lparr>basePathParts =
        (case basePath of
           None \<Rightarrow> []
         | Some (BasePath b) \<Rightarrow> pathParts b
         | Some (BaseString s) \<Rightarrow> str_split sep s),
      pathParts =
        (case strPathParts of
           Parts ps \<Rightarrow> ps
         | Boxed s \<Rightarrow> str_split sep s
         | Primitive s \<Rightarrow> map (\<lambda>c. [c]) s)\<rparr>"

definition Path_absolute :: "Path \<Rightarrow> string" where
  "Path_absolute P = rawJoinPath (basePathParts P @ pathParts P)"

definition Path_relativePath :: "Path \<Rightarrow> string" where
  "Path_relativePath P = rawJoinPath (pathParts P)"

definition Path_exists :: "Path \<Rightarrow> world \<Rightarrow> bool" where
  "Path_exists P w = raw_exists (files w) (Path_absolute P)"

definition Path_join :: "Path \<Rightarrow> string list \<Rightarrow> Path" where
  "Path_join P strPathParts =
     (let joined = rawJoinPath (pathParts P @ strPathParts)
      in new_Path (Parts (str_split sep joined)) None)"

definition Path_touch :: "Path \<Rightarrow> bool \<Rightarrow> unit promise" where
  "Path_touch P existOk w =
     (if Path_exists P w \<and> \<not> existOk then (Inl AlreadyExists, w)
      else raw_createFile (Path_absolute P) w)"

definition Path_mkdir :: "Path \<Rightarrow> bool \<Rightarrow> bool \<Rightarrow> unit promise" where
  "Path_mkdir P existOk recursive w =
     (if Path_exists P w \<and> \<not> existOk then (Inl AlreadyExists, w)
      else raw_mkdir (Path_absolute P) recursive w)"

definition Path_remove :: "Path \<Rightarrow> bool \<Rightarrow> bool \<Rightarrow> unit promise" where
  "Path_remove P missingOk recursive w =
     (if \<not> Path_exists P w \<and> \<not> missingOk then (Inl NotFound, w)
      else raw_removeFileOrDir (Path_relativePath P) recursive w)"

definition Path_basename :: "Path \<Rightarrow> error + string" where
  "Path_basename P = raw_basename (Path_absolute P)"

text \<open>
  An index read of a JavaScript array: \<^verbatim>\<open>undefined\<close> (here \<open>None\<close>) outside
  \<open>0 \<dots> length - 1\<close>, a negative index included.
\<close>

definition js_index :: "'a list \<Rightarrow> int \<Rightarrow> 'a option" where
  "js_index xs i = (if 0 \<le> i \<and> nat i < length xs then Some (xs ! nat i) else None)"

text \<open>
  \<^verbatim>\<open>extension()\<close> hands \<^verbatim>\<open>this.pathParts[-1]\<close> to the path API's \<^verbatim>\<open>extname\<close>. This is
  the only call of \<^verbatim>\<open>extname\<close> in the sources, so the collaborator is a parameter:
  a function from the argument (\<open>None\<close> for \<^verbatim>\<open>undefined\<close>) to its answer.
\<close>

definition Path_extension :: "(string option \<Rightarrow> error + string) \<Rightarrow> Path \<Rightarrow> error + string" where
  "Path_extension extname P = extname (js_index (pathParts P) (- 1))"

definition Path_readDir :: "Path \<Rightarrow> DirEntry list promise" where
  "Path_readDir P = raw_readDir (Path_absolute P)"

section \<open>The class ProjectManager (src/lib/project.ts)\<close>

definition sanitize :: "string \<Rightarrow> string" where
  "sanitize str =
     map (\<lambda>c. if c \<in> set ''abcdefghijklmnopqrstuvwxyzABCDEFGHIJKLMNOPQRSTUVWXYZ0123456789-_''
               then c else CHR ''_'') str"

definition getProjectsFolder :: Path where
  "getProjectsFolder = new_Path (Parts [''Rack Designer'', ''Projects'']) None"

definition getLocalDataFolder :: Path where
  "getLocalDataFolder = new_Path (Parts []) None"

definition saveManifest :: "project \<Rightarrow> unit promise" where
  "saveManifest p =
     (let manifestPath = Path_join (path p) [''manifest.json'']
      in rawWriteTextFile (Path_absolute manifestPath) (Manifest_json (manifest p)))"

text \<open>
  \<^verbatim>\<open>setCurrentProject\<close> does not await its write, and \<^verbatim>\<open>openProject\<close> does not await
  \<^verbatim>\<open>setCurrentProject\<close>.
\<close>

definition setCurrentProject :: "project \<Rightarrow> unit promise" where
  "setCurrentProject p w =
     (let currentInfoPath = Path_join getLocalDataFolder [''current.json'']
      in (Inr (), detached (rawWriteTextFile (Path_absolute currentInfoPath) (Project_json p)) w))"

definition getCurrentProject :: "project promise" where
  "getCurrentProject w =
     (let currentInfoPath = Path_join getLocalDataFolder [''current.json'']
      in case readTextFile (Path_absolute currentInfoPath) w of
           (Inl e, w') \<Rightarrow> (Inl e, w')
         | (Inr txt, w') \<Rightarrow>
             (case parse_project txt of Inl e \<Rightarrow> (Inl e, w') | Inr p \<Rightarrow> (Inr p, w')))"

text \<open>
  \<^verbatim>\<open>createProject\<close>: the three paths are joined to the projects folder; the four
  creation calls are not awaited; the manifest reads the clock twice; only
  \<^verbatim>\<open>saveManifest\<close> is awaited.
\<close>

definition createProject :: "string \<Rightarrow> project promise" where
  "createProject nm w0 =
     (let (projectId, w1) = generateUuid w0;
          sanitizedName = sanitize nm;
          projectPath = Path_join getProjectsFolder [sanitizedName];
          manifestPath = Path_join getProjectsFolder [''manifest.json''];
          assetsPath = Path_join getProjectsFolder [''assets''];
          w2 = detached (Path_mkdir getProjectsFolder True True) w1;
          w3 = detached (Path_mkdir projectPath False True) w2;
          w4 = detached (Path_mkdir assetsPath False True) w3;
          w5 = detached (Path_touch manifestPath False) w4;
          (created, w6) = new_Date w5;
          (modified, w7) = new_Date w6;
          m = \<lparr>version = ''1.0'', name = nm, id_manifest = projectId, rackSize = 42,
               textures = [], createdAt = created, modifiedAt = modified\<rparr>;
          p = \<lparr>path = projectPath, manifest = m\<rparr>
      in case saveManifest p w7 of
           (Inl e, w8) \<Rightarrow> (Inl e, w8)
         | (Inr u, w8) \<Rightarrow> (Inr p, w8))"

text \<open>
  The other order of the same calls. Every call is a chain of requests to the
  backend, answered in the order they are issued: the existence checks of the
  four creation calls are answered first, then the awaited write of
  \<^verbatim>\<open>saveManifest\<close>, and only then the four creations. \<open>landed\<close> is such a creation: its
  check was answered before (and refused the call or not), its effect lands now.
  The result of the call is the result of the write.
\<close>

definition landed :: "bool \<Rightarrow> unit promise \<Rightarrow> world \<Rightarrow> world" where
  "landed refused effect w =
     (if refused then w\<lparr>unhandled := unhandled w @ [AlreadyExists]\<rparr> else detached effect w)"

definition createProject_write_first :: "string \<Rightarrow> project promise" where
  "createProject_write_first nm w0 =
     (let (projectId, w1) = generateUuid w0;
          sanitizedName = sanitize nm;
          projectPath = Path_join getProjectsFolder [sanitizedName];
          manifestPath = Path_join getProjectsFolder [''manifest.json''];
          assetsPath = Path_join getProjectsFolder [''assets''];
          refused1 = (Path_exists getProjectsFolder w1 \<and> \<not> True);
          refused2 = (Path_exists projectPath w1 \<and> \<not> False);
          refused3 = (Path_exists assetsPath w1 \<and> \<not> False);
          refused4 = (Path_exists manifestPath w1 \<and> \<not> False);
          (created, w2) = new_Date w1;
          (modified, w3) = new_Date w2;
          m = \<lparr>version = ''1.0'', name = nm, id_manifest = projectId, rackSize = 42,
               textures = [], createdAt = created, modifiedAt = modified\<rparr>;
          p = \<lparr>path = projectPath, manifest = m\<rparr>;
          (saved, w4) = saveManifest p w3;
          w5 = landed refused1 (raw_mkdir (Path_absolute getProjectsFolder) True) w4;
          w6 = landed refused2 (raw_mkdir (Path_absolute projectPath) True) w5;
          w7 = landed refused3 (raw_mkdir (Path_absolute assetsPath) True) w6;
          w8 = landed refused4 (raw_createFile (Path_absolute manifestPath)) w7
      in case saved of
           Inl e \<Rightarrow> (Inl e, w8)
         | Inr u \<Rightarrow> (Inr p, w8))"

text \<open>
  \<^verbatim>\<open>openProject\<close> takes a folder name or a \<^verbatim>\<open>Path\<close>. Where the manifest file does not
  exist, the source builds a rejected promise and neither returns nor awaits
  it: the call goes on to read the file.
\<close>

datatype folder_ref = ByPath Path | ByName string

definition openProject :: "folder_ref \<Rightarrow> project promise" where
  "openProject folderName w0 =
     (case folderName of
        ByPath folder \<Rightarrow>
          (let manifestPath = Path_join folder [''manifest.json''];
               w1 = (if \<not> Path_exists manifestPath w0
                     then w0\<lparr>unhandled := unhandled w0 @ [InvalidProject]\<rparr> else w0)
           in case readTextFile (Path_absolute manifestPath) w1 of
                (Inl e, w2) \<Rightarrow> (Inl e, w2)
              | (Inr txt, w2) \<Rightarrow>
                  (case parse_manifest txt of
                     Inl e \<Rightarrow> (Inl e, w2)
                   | Inr m \<Rightarrow>
                       (let p = \<lparr>path = folder, manifest = m\<rparr>
                        in (Inr p, detached (setCurrentProject p) w2))))
      | ByName nm \<Rightarrow>
          (let projectPath = Path_join getProjectsFolder [nm];
               manifestPath = Path_join projectPath [''manifest.json''];
               w1 = (if \<not> Path_exists manifestPath w0
                     then w0\<lparr>unhandled := unhandled w0 @ [InvalidProject]\<rparr> else w0)
           in case readTextFile (Path_absolute manifestPath) w1 of
                (Inl e, w2) \<Rightarrow> (Inl e, w2)
              | (Inr txt, w2) \<Rightarrow>
                  (case parse_manifest txt of
                     Inl e \<Rightarrow> (Inl e, w2)
                   | Inr m \<Rightarrow>
                       (let p = \<lparr>path = projectPath, manifest = m\<rparr>
                        in (Inr p, detached (setCurrentProject p) w2)))))"

text \<open>
  The picker's answer as the source tests it: \<^verbatim>\<open>!selected\<close> holds for \<^verbatim>\<open>null\<close> and for
  the empty string.
\<close>

definition openFilePicker :: "world \<Rightarrow> string option" where
  "openFilePicker w = (case picker w of None \<Rightarrow> None | Some s \<Rightarrow> if s = [] then None else Some s)"

definition importProject :: "Path promise" where
  "importProject w0 =
     (case openFilePicker w0 of
        None \<Rightarrow> (Inl UserCancelled, w0)
      | Some selected \<Rightarrow>
          (let projectPath = new_Path (Primitive selected) None;
               manifestPath = Path_join projectPath [''manifest.json'']
           in if \<not> Path_exists manifestPath w0 then (Inl InvalidProject, w0)
              else
                (case readTextFile (Path_absolute manifestPath) w0 of
                   (Inl e, w1) \<Rightarrow> (Inl e, w1)
                 | (Inr manifestContent, w1) \<Rightarrow>
                     (case parse_manifest manifestContent of
                        Inl e \<Rightarrow> (Inl e, w1)
                      | Inr m \<Rightarrow>
                          (let pathTo = Path_join getProjectsFolder [sanitize (name m)]
                           in case rawCopyDir selected (Path_absolute pathTo) w1 of
                                (Inl e, w2) \<Rightarrow> (Inl e, w2)
                              | (Inr u, w2) \<Rightarrow> (Inr projectPath, w2))))))"

definition getTexturePath :: "project \<Rightarrow> texture \<Rightarrow> Path" where
  "getTexturePath p t =
     Path_join (path p) [''assets'', ''texture_'' @ id_texture t @ extension t]"

text \<open>
  \<^verbatim>\<open>addTexture\<close> and \<^verbatim>\<open>removeTexture\<close> change the project they are given in place: the
  project as the call leaves it is returned beside the result, also where the
  call is rejected.
\<close>

definition addTexture ::
  "(string option \<Rightarrow> error + string) \<Rightarrow> project \<Rightarrow> world
     \<Rightarrow> (error + texture option) \<times> project \<times> world" where
  "addTexture extname p w0 =
     (case openFilePicker w0 of
        None \<Rightarrow> (Inr None, p, w0)
      | Some selected \<Rightarrow>
          (let sourcePath = new_Path (Primitive selected) None;
               (textureId, w1) = generateUuid w0
           in case Path_extension extname sourcePath of
                Inl e \<Rightarrow> (Inl e, p, w1)
              | Inr ext \<Rightarrow>
                  (let destinationFilename = ''texture_'' @ textureId @ ext;
                       destinationPath = Path_join (path p) [''assets'', destinationFilename]
                   in case copyFile (Path_absolute sourcePath) (Path_absolute destinationPath) w1 of
                        (Inl e, w2) \<Rightarrow> (Inl e, p, w2)
                      | (Inr u, w2) \<Rightarrow>
                          (case Path_basename sourcePath of
                             Inl e \<Rightarrow> (Inl e, p, w2)
                           | Inr base \<Rightarrow>
                               (case Path_extension extname sourcePath of
                                  Inl e \<Rightarrow> (Inl e, p, w2)
                                | Inr ext' \<Rightarrow>
                                    (let t = \<lparr>id_texture = textureId, originalName = base,
                                              extension = ext', size_texture = None\<rparr>;
                                         p1 = p\<lparr>manifest := (manifest p)
                                                \<lparr>textures := textures (manifest p) @ [t]\<rparr>\<rparr>;
                                         (now, w3) = new_Date w2;
                                         p2 = p1\<lparr>manifest := (manifest p1)\<lparr>modifiedAt := now\<rparr>\<rparr>
                                     in case saveManifest p2 w3 of
                                          (Inl e, w4) \<Rightarrow> (Inl e, p2, w4)
                                        | (Inr u', w4) \<Rightarrow> (Inr (Some t), p2, w4)))))))"

fun findIndex :: "('a \<Rightarrow> bool) \<Rightarrow> 'a list \<Rightarrow> int" where
  "findIndex P [] = - 1"
| "findIndex P (x # xs) =
     (if P x then 0 else (let i = findIndex P xs in if i = - 1 then - 1 else i + 1))"

definition splice_at :: "nat \<Rightarrow> nat \<Rightarrow> 'a list \<Rightarrow> 'a list" where
  "splice_at start deleteCount xs = take start xs @ drop (start + deleteCount) xs"

definition removeTexture ::
  "project \<Rightarrow> string \<Rightarrow> world \<Rightarrow> (error + bool) \<times> project \<times> world" where
  "removeTexture p textureId w0 =
     (let textureIndex = findIndex (\<lambda>t. id_texture t = textureId) (textures (manifest p))
      in if textureIndex = - 1 then (Inr False, p, w0)
         else
           (let t = textures (manifest p) ! nat textureIndex;
                texturePath = getTexturePath p t
            in case Path_remove texturePath False False w0 of
                 (Inl e, w1) \<Rightarrow> (Inr False, p, w1)
               | (Inr u, w1) \<Rightarrow>
                   (let p1 = p\<lparr>manifest := (manifest p)
                              \<lparr>textures := splice_at (nat textureIndex) 1 (textures (manifest p))\<rparr>\<rparr>;
                        (now, w2) = new_Date w1;
                        p2 = p1\<lparr>manifest := (manifest p1)\<lparr>modifiedAt := now\<rparr>\<rparr>
                    in case saveManifest p2 w2 of
                         (Inl e, w3) \<Rightarrow> (Inl e, p2, w3)
                       | (Inr u', w3) \<Rightarrow> (Inr True, p2, w3))))"

fun listProjects_loop :: "DirEntry list \<Rightarrow> project list \<Rightarrow> project list promise" where
  "listProjects_loop [] projects w = (Inr projects, w)"
| "listProjects_loop (entry # entries) projects w =
     (if isDirectory entry then
        (case openProject (ByName (name_entry entry)) w of
           (Inl e, w') \<Rightarrow> (Inl e, w')
         | (Inr p, w') \<Rightarrow> listProjects_loop entries (projects @ [p]) w')
      else listProjects_loop entries projects w)"

definition listProjects :: "project list promise" where
  "listProjects w0 =
     (let projectsPath = getProjectsFolder
      in if \<not> Path_exists projectsPath w0 then (Inr [], w0)
         else
           (case Path_readDir projectsPath w0 of
              (Inl e, w1) \<Rightarrow> (Inl e, w1)
            | (Inr entries, w1) \<Rightarrow>
                if length entries = 0 then (Inr [], w1)
                else listProjects_loop entries [] w1))"

section \<open>Notions the properties are stated with\<close>

definition texture_ids :: "project \<Rightarrow> string list" where
  "texture_ids p = map id_texture (textures (manifest p))"

definition unique_ids :: "project \<Rightarrow> bool" where
  "unique_ids p = distinct (texture_ids p)"

text \<open>The location string of a project's manifest file, as \<^verbatim>\<open>saveManifest\<close> derives it.\<close>

definition manifest_file :: "project \<Rightarrow> string" where
  "manifest_file p = Path_absolute (Path_join (path p) [''manifest.json''])"

text \<open>The manifest location \<^verbatim>\<open>openProject\<close> derives from its argument.\<close>

definition manifest_location :: "folder_ref \<Rightarrow> Path" where
  "manifest_location folderName =
     (case folderName of
        ByPath folder \<Rightarrow> Path_join folder [''manifest.json'']
      | ByName nm \<Rightarrow> Path_join (Path_join getProjectsFolder [nm]) [''manifest.json''])"



definition without_texture :: "project \<Rightarrow> texture \<Rightarrow> nat \<Rightarrow> project" where
  "without_texture p t now =
     p\<lparr>manifest := (manifest p)
         \<lparr>textures := remove1 t (textures (manifest p)), modifiedAt := now\<rparr>\<rparr>"

section \<open>Example worlds\<close>

text \<open>
  The collaborator \<^verbatim>\<open>extname\<close> as the code meets it: the path API rejects a call
  that lacks its argument, and that is the only call the code makes. (A file name
  is answered with its suffix from the last dot on.)
\<close>

definition dot_suffix :: "string \<Rightarrow> string" where
  "dot_suffix s =
     (if CHR ''.'' \<in> set s then CHR ''.'' # last (str_split CHR ''.'' s) else [])"

definition strict_extname :: "string option \<Rightarrow> error + string" where
  "strict_extname a = (case a of None \<Rightarrow> Inl IOFailure | Some s \<Rightarrow> Inr (dot_suffix s))"

text \<open>
  An empty file system with nobody at the picker; the clock stands at 1000 and
  the identifiers are \<open>a\<close>, \<open>aa\<close>, \<open>aaa\<close>, ...
\<close>

definition empty_world :: world where
  "empty_world =
     \<lparr>files = [], picker = None, clock = (\<lambda>k. 1000), clock_reads = 0,
      uuids = (\<lambda>k. replicate (Suc k) CHR ''a''), uuid_count = 0, unhandled = []\<rparr>"

text \<open>The project that \<^verbatim>\<open>createProject("Demo")\<close> returns in the empty world.\<close>

definition demo_created :: project where
  "demo_created =
     \<lparr>path = \<lparr>basePathParts = [], pathParts = [''Rack Designer'', ''Projects'', ''Demo'']\<rparr>,
      manifest = \<lparr>version = ''1.0'', name = ''Demo'', id_manifest = ''a'', rackSize = 42,
                  textures = [], createdAt = 1000, modifiedAt = 1000\<rparr>\<rparr>"

text \<open>
  A project \<open>Demo\<close> with one texture, its folder on disk, an image \<open>/t/p\<close> that the
  user picks at the next prompt, and a running clock.
\<close>

definition photo :: texture where
  "photo = \<lparr>id_texture = ''t1'', originalName = ''photo.png'', extension = ''.png'',
             size_texture = None\<rparr>"

definition studio_project :: project where
  "studio_project =
     \<lparr>path = \<lparr>basePathParts = [], pathParts = [''Rack Designer'', ''Projects'', ''Demo'']\<rparr>,
      manifest = \<lparr>version = ''1.0'', name = ''Demo'', id_manifest = ''p1'', rackSize = 42,
                  textures = [photo], createdAt = 1000, modifiedAt = 1000\<rparr>\<rparr>"

definition studio_world :: world where
  "studio_world =
     \<lparr>files =
        [(''Rack Designer'', Dir),
         (''Rack Designer/Projects'', Dir),
         (''Rack Designer/Projects/Demo'', Dir),
         (''Rack Designer/Projects/Demo/assets'', Dir),
         (''Rack Designer/Projects/Demo/manifest.json'',
            File (Manifest_json (manifest studio_project))),
         (''Rack Designer/Projects/Demo/assets/texture_t1.png'', File (Raw ''png'')),
         (''/t'', Dir),
         (''/t/p'', File (Raw ''pixels''))],
      picker = Some ''/t/p'', clock = (\<lambda>k. 2000 + k), clock_reads = 0,
      uuids = (\<lambda>k. replicate (Suc k) CHR ''a''), uuid_count = 0, unhandled = []\<rparr>"

text \<open>The same world, with a directory where the project's manifest file should be.\<close>

definition jammed_world :: world where
  "jammed_world =
     studio_world\<lparr>files :=
       AList.update ''Rack Designer/Projects/Demo/manifest.json'' Dir (files studio_world)\<rparr>"

section \<open>Auxiliary facts\<close>

lemma pair_of_fst: "fst x = a \<Longrightarrow> x = (a, snd x)"
  by (cases x) simp

subsection \<open>Array helpers\<close>

lemma index_minus_one: "js_index xs (- 1) = None"
  by (simp add: js_index_def)

lemma findIndex_ge: "- 1 \<le> findIndex P xs"
  by (induction xs) (auto simp: Let_def)

lemma findIndex_none: "(findIndex P xs = - 1) = (\<forall>x \<in> set xs. \<not> P x)"
proof (induction xs)
  case Nil
  then show ?case by simp
next
  case (Cons x xs)
  have "- 1 \<le> findIndex P xs" by (rule findIndex_ge)
  with Cons show ?case by (auto simp: Let_def)
qed

text \<open>
  Where some element satisfies the test, \<^verbatim>\<open>findIndex\<close> is the position of the first
  one, and splicing one element out there removes exactly that element.
\<close>

lemma findIndex_find:
  "find P xs = Some t \<Longrightarrow>
     0 \<le> findIndex P xs \<and> nat (findIndex P xs) < length xs \<and> xs ! nat (findIndex P xs) = t
     \<and> splice_at (nat (findIndex P xs)) 1 xs = remove1 t xs"
proof (induction xs)
  case Nil
  then show ?case by simp
next
  case (Cons x xs)
  show ?case
  proof (cases "P x")
    case True
    with Cons.prems show ?thesis by (simp add: splice_at_def)
  next
    case False
    with Cons.prems have f: "find P xs = Some t" by simp
    then have "P t" by (auto simp: find_Some_iff)
    with False have ne: "x \<noteq> t" by auto
    from Cons.IH [OF f] have ih: "0 \<le> findIndex P xs" "nat (findIndex P xs) < length xs"
      "xs ! nat (findIndex P xs) = t" "splice_at (nat (findIndex P xs)) 1 xs = remove1 t xs"
      by auto
    from ih(1) have n: "nat (findIndex P xs + 1) = Suc (nat (findIndex P xs))" by simp
    from ih(1) have m: "findIndex P xs \<noteq> - 1" by simp
    show ?thesis using False ih ne m n
      by (simp add: Let_def splice_at_def)
  qed
qed

lemma distinct_map_append_drop:
  "distinct (map f (ys @ zs)) \<Longrightarrow> distinct (map f (ys @ drop n zs))"
proof -
  assume d: "distinct (map f (ys @ zs))"
  have "distinct (drop n (map f zs))" using d by (simp add: distinct_drop)
  then have 1: "distinct (map f (drop n zs))" by (simp add: drop_map)
  have 2: "set (drop n zs) \<subseteq> set zs" by (rule set_drop_subset)
  show ?thesis using d 1 2 by auto
qed

lemma distinct_splice_at:
  "distinct (map f xs) \<Longrightarrow> distinct (map f (splice_at i n xs))"
proof -
  assume d: "distinct (map f xs)"
  have "xs = take i xs @ drop i xs" by simp
  with d have "distinct (map f (take i xs @ drop i xs))" by simp
  then have "distinct (map f (take i xs @ drop n (drop i xs)))"
    by (rule distinct_map_append_drop)
  then show ?thesis by (simp add: splice_at_def add.commute)
qed

subsection \<open>File-system calls\<close>

lemma Path_remove_rejected:
  "Path_remove P missingOk recursive w = (Inl e, w1) \<Longrightarrow> w1 = w"
  by (auto simp: Path_remove_def raw_removeFileOrDir_def
      split: if_splits option.splits node.splits)

lemma saveManifest_rejected:
  "saveManifest p w = (Inl e, w') \<Longrightarrow> e = IOFailure \<and> w' = w"
  by (auto simp: saveManifest_def rawWriteTextFile_def put_file_def Let_def split: if_splits)

lemma saveManifest_persists:
  "saveManifest p w = (Inr u, w') \<Longrightarrow>
     readTextFile (manifest_file p) w' = (Inr (Manifest_json (manifest p)), w')"
  by (auto simp: saveManifest_def rawWriteTextFile_def put_file_def Let_def readTextFile_def
      manifest_file_def update_conv split: if_splits)

section \<open>The extension of a path\<close>

lemma basename_of_segments:
  "Path_basename (new_Path (Parts [''docs'', ''photo.png'']) None) = Inr ''photo.png''"
  by code_simp

text \<open>
  C8. For a Path with a non-empty segment list, \<^verbatim>\<open>basename()\<close> returns the final
  segment and \<^verbatim>\<open>extension()\<close> returns that segment's suffix. The source reads
  \<^verbatim>\<open>this.pathParts[-1]\<close>, which is \<^verbatim>\<open>undefined\<close> for every array: whatever the
  segments are, \<^verbatim>\<open>extension()\<close> is the collaborator's answer to a missing argument,
  and the final segment is never looked at.
\<close>

theorem extension_ignores_segments:
  "Path_extension extname P = extname None"
  by (simp add: Path_extension_def js_index_def)

text \<open>
  With a collaborator that rejects a missing argument, \<^verbatim>\<open>addTexture\<close> is rejected for
  every file the user picks, before anything is copied or recorded.
\<close>

lemma addTexture_rejected_by_extname:
  assumes "openFilePicker w = Some selected" and "extname None = Inl e"
  shows "addTexture extname p w = (Inl e, p, snd (generateUuid w))"
  using assms
  by (simp add: addTexture_def Let_def Path_extension_def js_index_def split: prod.splits)

section \<open>Opening a project\<close>

text \<open>
  C2. \<^verbatim>\<open>openProject\<close> on a location without \<^verbatim>\<open>manifest.json\<close> fails with InvalidProject
  and returns no project. In the source the call is rejected and returns no
  project, but the rejection that reaches the caller is the read failure of the
  file system: the InvalidProject rejection is built, never returned, and ends
  among the unhandled ones.
\<close>

theorem openProject_without_manifest:
  "\<not> Path_exists (manifest_location folderName) w \<Longrightarrow>
     openProject folderName w =
       (Inl IOFailure, w\<lparr>unhandled := unhandled w @ [InvalidProject]\<rparr>)"
  by (cases folderName)
     (simp_all add: openProject_def manifest_location_def Let_def Path_exists_def raw_exists_def
        readTextFile_def)

theorem openProject_without_manifest_witness:
  "\<not> Path_exists (manifest_location (ByName ''Ghost'')) empty_world
   \<and> openProject (ByName ''Ghost'') empty_world =
       (Inl IOFailure, empty_world\<lparr>unhandled := [InvalidProject]\<rparr>)"
proof -
  have h: "\<not> Path_exists (manifest_location (ByName ''Ghost'')) empty_world"
    by code_simp
  have u: "unhandled empty_world = []"
    by (simp add: empty_world_def)
  show ?thesis
    using h openProject_without_manifest [OF h] u by simp
qed

section \<open>A dismissed picker\<close>

text \<open>
  C7. When the user dismisses the picker, the add-texture flow and the import
  flow both complete with a null result. The import flow does not: at a dismissed
  picker \<^verbatim>\<open>importProject\<close> is rejected ("User closed file select prompt.").
\<close>

theorem importProject_dismissed_counterexample:
  "picker empty_world = None \<and> fst (importProject empty_world) = Inl UserCancelled"
  by code_simp

text \<open>
  C7, as amended. When the user dismisses the picker, \<^verbatim>\<open>addTexture\<close> completes with
  a null result and changes neither the project nor the world, and
  \<^verbatim>\<open>importProject\<close> is rejected as cancelled by the user, the world unchanged.
\<close>

theorem picker_dismissed:
  "picker w = None \<Longrightarrow>
     addTexture extname p w = (Inr None, p, w) \<and> importProject w = (Inl UserCancelled, w)"
  by (simp add: addTexture_def importProject_def openFilePicker_def)

theorem picker_dismissed_witness:
  "picker empty_world = None
   \<and> addTexture strict_extname studio_project empty_world = (Inr None, studio_project, empty_world)
   \<and> importProject empty_world = (Inl UserCancelled, empty_world)"
proof -
  have h: "picker empty_world = None"
    by (simp add: empty_world_def)
  show ?thesis
    using h picker_dismissed [OF h, of strict_extname studio_project] by simp
qed

section \<open>Removing a texture\<close>

lemma removeTexture_unknown:
  "tid \<notin> set (texture_ids p) \<Longrightarrow> removeTexture p tid w = (Inr False, p, w)"
proof -
  assume "tid \<notin> set (texture_ids p)"
  then have "findIndex (\<lambda>t. id_texture t = tid) (textures (manifest p)) = - 1"
    by (auto simp: findIndex_none texture_ids_def)
  then show ?thesis by (simp add: removeTexture_def)
qed

lemma removeTexture_found:
  assumes "find (\<lambda>t. id_texture t = tid) (textures (manifest p)) = Some t"
  shows "removeTexture p tid w =
           (case Path_remove (getTexturePath p t) False False w of
              (Inl e, w1) \<Rightarrow> (Inr False, p, w1)
            | (Inr u, w1) \<Rightarrow>
                (case saveManifest (without_texture p t (fst (new_Date w1))) (snd (new_Date w1)) of
                   (Inl e, w2) \<Rightarrow> (Inl e, without_texture p t (fst (new_Date w1)), w2)
                 | (Inr u', w2) \<Rightarrow> (Inr True, without_texture p t (fst (new_Date w1)), w2)))"
proof -
  let ?i = "findIndex (\<lambda>t. id_texture t = tid) (textures (manifest p))"
  from findIndex_find [OF assms]
  have i: "0 \<le> ?i" "textures (manifest p) ! nat ?i = t"
    "splice_at (nat ?i) 1 (textures (manifest p)) = remove1 t (textures (manifest p))"
    by auto
  from i(1) have ne: "?i \<noteq> - 1" by simp
  show ?thesis
    using ne i(2) i(3)
    by (simp add: removeTexture_def Let_def new_Date_def without_texture_def
        split: prod.splits sum.splits)
qed

text \<open>
  C4. \<^verbatim>\<open>removeTexture\<close> returns false and leaves the manifest unchanged when the id
  is not in the texture list or when deleting the asset file fails; on successful
  deletion it removes the matching record, updates \<^verbatim>\<open>modifiedAt\<close>, persists the
  manifest, and returns true. The last part fails where the deletion succeeds and
  the write of the manifest is rejected: here a directory stands where the
  manifest file should be, the asset is deleted, and the call is rejected instead
  of returning true.
\<close>

theorem removeTexture_write_rejected_counterexample:
  "find (\<lambda>t. id_texture t = ''t1'') (textures (manifest studio_project)) = Some photo
   \<and> fst (Path_remove (getTexturePath studio_project photo) False False jammed_world) = Inr ()
   \<and> fst (removeTexture studio_project ''t1'' jammed_world) = Inl IOFailure"
  by code_simp

text \<open>
  C4, as amended. \<^verbatim>\<open>removeTexture\<close> returns false and leaves the project and the
  world unchanged when the id is not in the texture list, and when deleting the
  asset file of the first record with that id fails. When the deletion succeeds,
  the record is removed and \<^verbatim>\<open>modifiedAt\<close> is set to the clock's reading; then the
  manifest is written: if the write succeeds the call returns true and the
  manifest file holds the new manifest, and if the write is rejected the call is
  rejected with the write's failure.
\<close>

theorem removeTexture_outcomes:
  "(tid \<notin> set (texture_ids p) \<longrightarrow> removeTexture p tid w = (Inr False, p, w))
   \<and> (find (\<lambda>t. id_texture t = tid) (textures (manifest p)) = Some t
        \<and> fst (Path_remove (getTexturePath p t) False False w) = Inl e
       \<longrightarrow> removeTexture p tid w = (Inr False, p, w))
   \<and> (find (\<lambda>t. id_texture t = tid) (textures (manifest p)) = Some t
        \<and> Path_remove (getTexturePath p t) False False w = (Inr u, w1)
        \<and> saveManifest (without_texture p t (fst (new_Date w1))) (snd (new_Date w1)) = (Inr u', w2)
       \<longrightarrow> removeTexture p tid w = (Inr True, without_texture p t (fst (new_Date w1)), w2)
           \<and> readTextFile (manifest_file p) w2 =
               (Inr (Manifest_json (manifest (without_texture p t (fst (new_Date w1))))), w2))
   \<and> (find (\<lambda>t. id_texture t = tid) (textures (manifest p)) = Some t
        \<and> Path_remove (getTexturePath p t) False False w = (Inr u, w1)
        \<and> fst (saveManifest (without_texture p t (fst (new_Date w1))) (snd (new_Date w1))) = Inl e'
       \<longrightarrow> removeTexture p tid w =
             (Inl IOFailure, without_texture p t (fst (new_Date w1)), snd (new_Date w1)))"
proof (intro conjI impI)
  assume "tid \<notin> set (texture_ids p)"
  then show "removeTexture p tid w = (Inr False, p, w)"
    by (rule removeTexture_unknown)
next
  assume a: "find (\<lambda>t. id_texture t = tid) (textures (manifest p)) = Some t
    \<and> fst (Path_remove (getTexturePath p t) False False w) = Inl e"
  then obtain w1 where r: "Path_remove (getTexturePath p t) False False w = (Inl e, w1)"
    by (metis prod.collapse)
  then have "w1 = w" by (rule Path_remove_rejected)
  with a r show "removeTexture p tid w = (Inr False, p, w)"
    by (simp add: removeTexture_found)
next
  assume a: "find (\<lambda>t. id_texture t = tid) (textures (manifest p)) = Some t
    \<and> Path_remove (getTexturePath p t) False False w = (Inr u, w1)
    \<and> saveManifest (without_texture p t (fst (new_Date w1))) (snd (new_Date w1)) = (Inr u', w2)"
  then show "removeTexture p tid w = (Inr True, without_texture p t (fst (new_Date w1)), w2)"
    by (simp add: removeTexture_found)
  from a have "readTextFile (manifest_file (without_texture p t (fst (new_Date w1)))) w2 =
      (Inr (Manifest_json (manifest (without_texture p t (fst (new_Date w1))))), w2)"
    by (blast intro: saveManifest_persists)
  then show "readTextFile (manifest_file p) w2 =
      (Inr (Manifest_json (manifest (without_texture p t (fst (new_Date w1))))), w2)"
    by (simp add: manifest_file_def without_texture_def)
next
  assume a: "find (\<lambda>t. id_texture t = tid) (textures (manifest p)) = Some t
    \<and> Path_remove (getTexturePath p t) False False w = (Inr u, w1)
    \<and> fst (saveManifest (without_texture p t (fst (new_Date w1))) (snd (new_Date w1))) = Inl e'"
  then obtain w2 where
    s: "saveManifest (without_texture p t (fst (new_Date w1))) (snd (new_Date w1)) = (Inl e', w2)"
    by (metis prod.collapse)
  then have "e' = IOFailure \<and> w2 = snd (new_Date w1)"
    by (rule saveManifest_rejected)
  with a s show "removeTexture p tid w =
      (Inl IOFailure, without_texture p t (fst (new_Date w1)), snd (new_Date w1))"
    by (simp add: removeTexture_found)
qed

theorem removeTexture_outcomes_witness:
  "''zz'' \<notin> set (texture_ids studio_project)
   \<and> removeTexture studio_project ''zz'' studio_world = (Inr False, studio_project, studio_world)
   \<and> find (\<lambda>t. id_texture t = ''t1'') (textures (manifest studio_project)) = Some photo
   \<and> fst (Path_remove (getTexturePath studio_project photo) False False empty_world) = Inl NotFound
   \<and> removeTexture studio_project ''t1'' empty_world = (Inr False, studio_project, empty_world)
   \<and> fst (Path_remove (getTexturePath studio_project photo) False False studio_world) = Inr ()
   \<and> fst (removeTexture studio_project ''t1'' studio_world) = Inr True
   \<and> fst (snd (removeTexture studio_project ''t1'' studio_world)) =
        without_texture studio_project photo 2000
   \<and> fst (readTextFile (manifest_file studio_project)
            (snd (snd (removeTexture studio_project ''t1'' studio_world)))) =
        Inr (Manifest_json (manifest (without_texture studio_project photo 2000)))
   \<and> fst (Path_remove (getTexturePath studio_project photo) False False jammed_world) = Inr ()
   \<and> fst (removeTexture studio_project ''t1'' jammed_world) = Inl IOFailure
   \<and> fst (snd (removeTexture studio_project ''t1'' jammed_world)) =
        without_texture studio_project photo 2000"
proof -
  let ?P = "getTexturePath studio_project photo"
  define w1 where "w1 = snd (Path_remove ?P False False studio_world)"
  define w2 where "w2 = snd (saveManifest (without_texture studio_project photo (fst (new_Date w1)))
                               (snd (new_Date w1)))"
  define j1 where "j1 = snd (Path_remove ?P False False jammed_world)"
  have a: "''zz'' \<notin> set (texture_ids studio_project)"
    by code_simp
  have f: "find (\<lambda>t. id_texture t = ''t1'') (textures (manifest studio_project)) = Some photo"
    by code_simp
  have b: "fst (Path_remove ?P False False empty_world) = Inl NotFound"
    by code_simp
  have c: "fst (Path_remove ?P False False studio_world) = Inr ()"
    by code_simp
  have c': "Path_remove ?P False False studio_world = (Inr (), w1)"
    unfolding w1_def using c by (rule pair_of_fst)
  have n: "fst (new_Date w1) = 2000"
    unfolding w1_def by code_simp
  have d: "fst (saveManifest (without_texture studio_project photo (fst (new_Date w1)))
                  (snd (new_Date w1))) = Inr ()"
    unfolding w1_def by code_simp
  have d': "saveManifest (without_texture studio_project photo (fst (new_Date w1)))
              (snd (new_Date w1)) = (Inr (), w2)"
    unfolding w2_def using d by (rule pair_of_fst)
  have g: "fst (Path_remove ?P False False jammed_world) = Inr ()"
    by code_simp
  have g': "Path_remove ?P False False jammed_world = (Inr (), j1)"
    unfolding j1_def using g by (rule pair_of_fst)
  have m: "fst (new_Date j1) = 2000"
    unfolding j1_def by code_simp
  have h: "fst (saveManifest (without_texture studio_project photo (fst (new_Date j1)))
                  (snd (new_Date j1))) = Inl IOFailure"
    unfolding j1_def by code_simp
  have r1: "removeTexture studio_project ''zz'' studio_world =
              (Inr False, studio_project, studio_world)"
    using removeTexture_outcomes [where tid = "''zz''" and p = studio_project and w = studio_world] a
    by blast
  have r2: "removeTexture studio_project ''t1'' empty_world =
              (Inr False, studio_project, empty_world)"
    using removeTexture_outcomes [where tid = "''t1''" and p = studio_project and w = empty_world
        and t = photo and e = NotFound] f b
    by blast
  have r3: "removeTexture studio_project ''t1'' studio_world =
              (Inr True, without_texture studio_project photo (fst (new_Date w1)), w2)
            \<and> readTextFile (manifest_file studio_project) w2 =
              (Inr (Manifest_json (manifest (without_texture studio_project photo (fst (new_Date w1))))), w2)"
    using removeTexture_outcomes [where tid = "''t1''" and p = studio_project and w = studio_world
        and t = photo and u = "()" and ?w1.0 = w1 and u' = "()" and ?w2.0 = w2] f c' d'
    by blast
  have r4: "removeTexture studio_project ''t1'' jammed_world =
              (Inl IOFailure, without_texture studio_project photo (fst (new_Date j1)),
               snd (new_Date j1))"
    using removeTexture_outcomes [where tid = "''t1''" and p = studio_project and w = jammed_world
        and t = photo and u = "()" and ?w1.0 = j1 and e' = IOFailure] f g' h
    by blast
  from r3 have s1: "fst (removeTexture studio_project ''t1'' studio_world) = Inr True"
    and s2: "fst (snd (removeTexture studio_project ''t1'' studio_world)) =
               without_texture studio_project photo 2000"
    and s3: "fst (readTextFile (manifest_file studio_project)
               (snd (snd (removeTexture studio_project ''t1'' studio_world)))) =
             Inr (Manifest_json (manifest (without_texture studio_project photo 2000)))"
    by (simp_all add: n)
  from r4 have s4: "fst (removeTexture studio_project ''t1'' jammed_world) = Inl IOFailure"
    and s5: "fst (snd (removeTexture studio_project ''t1'' jammed_world)) =
               without_texture studio_project photo 2000"
    by (simp_all add: m)
  from a r1 f b r2 c s1 s2 s3 g s4 s5 show ?thesis
    by (intro conjI)
qed

section \<open>Adding a texture\<close>

text \<open>
  C6. After a successful \<^verbatim>\<open>addTexture\<close> returning texture \<open>t\<close>, \<^verbatim>\<open>getTexturePath\<close> of the
  project and \<open>t\<close> is a location at which the copied asset file exists. In the
  source no call of \<^verbatim>\<open>addTexture\<close> gets that far: the first thing it does with a
  picked file is \<^verbatim>\<open>sourcePath.extension()\<close>, which calls \<^verbatim>\<open>extname\<close> without an argument
  (C8). With a collaborator that rejects such a call, every picked file ends in
  the collaborator's rejection: no texture is ever returned, the project is as
  before, and no file is copied.
\<close>

theorem addTexture_never_returns_texture:
  "extname None = Inl e \<Longrightarrow>
     (openFilePicker w = Some selected
        \<longrightarrow> addTexture extname p w = (Inl e, p, snd (generateUuid w)))
     \<and> fst (addTexture extname p w) \<noteq> Inr (Some t)
     \<and> fst (snd (addTexture extname p w)) = p
     \<and> files (snd (snd (addTexture extname p w))) = files w"
  by (auto simp: addTexture_def Let_def Path_extension_def js_index_def generateUuid_def
      split: option.splits prod.splits)

theorem addTexture_never_returns_texture_witness:
  "strict_extname None = Inl IOFailure
   \<and> openFilePicker studio_world = Some ''/t/p''
   \<and> fst (addTexture strict_extname studio_project studio_world) = Inl IOFailure
   \<and> fst (snd (addTexture strict_extname studio_project studio_world)) = studio_project
   \<and> files (snd (snd (addTexture strict_extname studio_project studio_world))) =
       files studio_world"
proof -
  have h: "strict_extname None = Inl IOFailure"
    by (simp add: strict_extname_def)
  have k: "openFilePicker studio_world = Some ''/t/p''"
    by code_simp
  note r = addTexture_never_returns_texture [where extname = strict_extname and e = IOFailure
      and w = studio_world and selected = "''/t/p''" and p = studio_project, OF h]
  from r k have 1: "addTexture strict_extname studio_project studio_world =
      (Inl IOFailure, studio_project, snd (generateUuid studio_world))"
    by blast
  then have 2: "fst (addTexture strict_extname studio_project studio_world) = Inl IOFailure"
    by simp
  from r have 3: "fst (snd (addTexture strict_extname studio_project studio_world)) =
      studio_project"
    by blast
  from r have 4: "files (snd (snd (addTexture strict_extname studio_project studio_world))) =
      files studio_world"
    by blast
  from h k 2 3 4 show ?thesis
    by (intro conjI)
qed



section \<open>Unique texture identifiers\<close>

lemma addTexture_texture_ids:
  "texture_ids (fst (snd (addTexture extname p w))) = texture_ids p \<or>
   texture_ids (fst (snd (addTexture extname p w))) = texture_ids p @ [uuids w (uuid_count w)]"
  by (auto simp: addTexture_def Let_def Path_extension_def js_index_def generateUuid_def
      new_Date_def texture_ids_def split: option.splits sum.splits prod.splits)

lemma removeTexture_textures:
  "textures (manifest (fst (snd (removeTexture p tid w)))) = textures (manifest p) \<or>
   textures (manifest (fst (snd (removeTexture p tid w)))) =
     splice_at (nat (findIndex (\<lambda>t. id_texture t = tid) (textures (manifest p)))) 1
       (textures (manifest p))"
  by (auto simp: removeTexture_def Let_def new_Date_def split: option.splits sum.splits prod.splits)

lemma createProject_manifest:
  "fst (createProject nm w) = Inr p \<Longrightarrow>
     textures (manifest p) = [] \<and> rackSize (manifest p) = 42 \<and> name (manifest p) = nm"
  by (auto simp: createProject_def Let_def generateUuid_def new_Date_def
      split: prod.splits sum.splits)

text \<open>
  C9. The texture ids of a project stay pairwise distinct: a project that
  \<^verbatim>\<open>createProject\<close> returns has distinct ids; if a project has distinct ids, it has
  them after \<^verbatim>\<open>addTexture\<close>, given that the generated id is not among them, and after
  \<^verbatim>\<open>removeTexture\<close>, whatever the calls return.
\<close>

theorem unique_ids_preserved:
  "(fst (createProject nm w) = Inr p' \<longrightarrow> unique_ids p')
   \<and> (unique_ids p \<and> uuids w (uuid_count w) \<notin> set (texture_ids p)
        \<longrightarrow> unique_ids (fst (snd (addTexture extname p w))))
   \<and> (unique_ids p \<longrightarrow> unique_ids (fst (snd (removeTexture p tid w))))"
proof (intro conjI impI)
  assume "fst (createProject nm w) = Inr p'"
  then have "textures (manifest p') = []"
    by (simp add: createProject_manifest)
  then show "unique_ids p'"
    by (simp add: unique_ids_def texture_ids_def)
next
  assume a: "unique_ids p \<and> uuids w (uuid_count w) \<notin> set (texture_ids p)"
  from addTexture_texture_ids [of extname p w] a
  show "unique_ids (fst (snd (addTexture extname p w)))"
    by (auto simp: unique_ids_def)
next
  assume a: "unique_ids p"
  from removeTexture_textures [of p tid w] a
  show "unique_ids (fst (snd (removeTexture p tid w)))"
    by (auto simp: unique_ids_def texture_ids_def distinct_splice_at)
qed

theorem unique_ids_preserved_witness:
  "fst (createProject ''Demo'' empty_world) = Inr demo_created
   \<and> unique_ids demo_created
   \<and> unique_ids studio_project
   \<and> uuids studio_world (uuid_count studio_world) \<notin> set (texture_ids studio_project)
   \<and> unique_ids (fst (snd (addTexture strict_extname studio_project studio_world)))
   \<and> texture_ids (fst (snd (addTexture strict_extname studio_project studio_world))) =
       [''t1'']
   \<and> unique_ids (fst (snd (removeTexture studio_project ''t1'' studio_world)))
   \<and> texture_ids (fst (snd (removeTexture studio_project ''t1'' studio_world))) = []"
proof -
  have c: "fst (createProject ''Demo'' empty_world) = Inr demo_created"
    by code_simp
  have u: "unique_ids studio_project"
    by code_simp
  have f: "uuids studio_world (uuid_count studio_world) \<notin> set (texture_ids studio_project)"
    by code_simp
  have i1: "texture_ids (fst (snd (addTexture strict_extname studio_project studio_world))) =
       [''t1'']"
    by code_simp
  have i2: "texture_ids (fst (snd (removeTexture studio_project ''t1'' studio_world))) = []"
    by code_simp
  note inv = unique_ids_preserved [where nm = "''Demo''" and w = empty_world and p' = demo_created]
    unique_ids_preserved [where p = studio_project and w = studio_world
      and extname = strict_extname and tid = "''t1''"]
  have r1: "unique_ids demo_created"
    using inv(1) c by blast
  have r2: "unique_ids (fst (snd (addTexture strict_extname studio_project studio_world)))"
    using inv(2) u f by blast
  have r3: "unique_ids (fst (snd (removeTexture studio_project ''t1'' studio_world)))"
    using inv(2) u by blast
  from c r1 u f r2 i1 r3 i2 show ?thesis
    by (intro conjI)
qed

section \<open>Creating a project\<close>

text \<open>Only \<^verbatim>\<open>saveManifest\<close> is awaited, so a rejection of \<^verbatim>\<open>createProject\<close> is the write's.\<close>

lemma createProject_rejection:
  "fst (createProject nm w) = Inl e \<Longrightarrow> e = IOFailure"
  by (auto simp: createProject_def Let_def generateUuid_def new_Date_def
      split: prod.splits sum.splits dest: saveManifest_rejected)

text \<open>
  C1. \<^verbatim>\<open>createProject(name)\<close> returns a project whose folder and whose \<^verbatim>\<open>assets\<close>
  subfolder exist on disk, with \<^verbatim>\<open>textures = []\<close>, \<^verbatim>\<open>rackSize = 42\<close> and
  \<^verbatim>\<open>createdAt = modifiedAt\<close>. In the source the assets path is joined to the projects
  folder, not to the project's: for the name \<open>Demo\<close> in the empty world the project
  is returned, its folder exists, \<open>Rack Designer/Projects/assets\<close> is created and
  \<open>Rack Designer/Projects/Demo/assets\<close> is not.
\<close>

theorem createProject_assets_misplaced:
  "(case createProject ''Demo'' empty_world of
      (Inl e, w') \<Rightarrow> False
    | (Inr p, w') \<Rightarrow>
        p = demo_created
        \<and> textures (manifest p) = [] \<and> rackSize (manifest p) = 42
        \<and> createdAt (manifest p) = modifiedAt (manifest p)
        \<and> Path_exists (path p) w'
        \<and> \<not> Path_exists (Path_join (path p) [''assets'']) w'
        \<and> Path_exists (Path_join getProjectsFolder [''assets'']) w'
        \<and> unhandled w' = [])"
  by code_simp

text \<open>
  C3. \<^verbatim>\<open>createProject\<close> on a name whose sanitized form names an existing folder fails
  with AlreadyExists and returns no project. In the source the rejection of
  \<^verbatim>\<open>Path.mkdir\<close> is not awaited: after \<open>Test Rack!\<close> has been created, creating
  \<open>Test Rack?\<close> (the same folder \<open>Test_Rack_\<close>) returns a project on that folder and
  overwrites its manifest; the three AlreadyExists rejections stay unhandled.
\<close>

theorem createProject_existing_folder:
  "(case createProject ''Test Rack!'' empty_world of
      (Inl e, w1) \<Rightarrow> False
    | (Inr p1, w1) \<Rightarrow>
        sanitize ''Test Rack?'' = ''Test_Rack_''
        \<and> Path_exists (Path_join getProjectsFolder [sanitize ''Test Rack?'']) w1
        \<and> (case createProject ''Test Rack?'' w1 of
              (Inl e, w2) \<Rightarrow> False
            | (Inr p2, w2) \<Rightarrow>
                path p2 = path p1
                \<and> name (manifest p2) = ''Test Rack?''
                \<and> unhandled w2 = [AlreadyExists, AlreadyExists, AlreadyExists]
                \<and> fst (readTextFile (manifest_file p1) w2) = Inr (Manifest_json (manifest p2))))"
  by code_simp

text \<open>
  The same two defects where the awaited write lands before the creations. The
  first call for a fresh name is rejected (the project folder is not there yet
  when the manifest is written) and leaves the project folder, the misplaced
  \<open>assets\<close> folder and the placeholder behind; a second call for the same folder
  returns a project, with no \<open>assets\<close> subfolder and the AlreadyExists rejections
  unhandled.
\<close>

lemma write_first_assets_misplaced:
  "(case createProject_write_first ''Demo'' empty_world of
      (Inr p, w1) \<Rightarrow> False
    | (Inl e, w1) \<Rightarrow>
        e = IOFailure
        \<and> Path_exists (Path_join getProjectsFolder [''Demo'']) w1
        \<and> \<not> Path_exists (Path_join getProjectsFolder [''Demo'', ''assets'']) w1
        \<and> Path_exists (Path_join getProjectsFolder [''assets'']) w1
        \<and> (case createProject_write_first ''Demo'' w1 of
              (Inl e', w2) \<Rightarrow> False
            | (Inr p, w2) \<Rightarrow>
                Path_exists (path p) w2
                \<and> \<not> Path_exists (Path_join (path p) [''assets'']) w2
                \<and> Path_exists (Path_join getProjectsFolder [''assets'']) w2
                \<and> unhandled w2 = [AlreadyExists, AlreadyExists, AlreadyExists]))"
  by code_simp

lemma write_first_existing_folder:
  "(case createProject_write_first ''Test Rack!'' empty_world of
      (Inr p1, w1) \<Rightarrow> False
    | (Inl e, w1) \<Rightarrow>
        Path_exists (Path_join getProjectsFolder [sanitize ''Test Rack?'']) w1
        \<and> (case createProject_write_first ''Test Rack?'' w1 of
              (Inl e', w2) \<Rightarrow> False
            | (Inr p2, w2) \<Rightarrow>
                path p2 = Path_join getProjectsFolder [''Test_Rack_'']
                \<and> name (manifest p2) = ''Test Rack?''
                \<and> unhandled w2 = [AlreadyExists, AlreadyExists, AlreadyExists]
                \<and> fst (readTextFile (manifest_file p2) w2) = Inr (Manifest_json (manifest p2))))"
  by code_simp

section \<open>Listing projects\<close>

lemma listProjects_absent_root:
  "\<not> Path_exists getProjectsFolder w \<Longrightarrow> listProjects w = (Inr [], w)"
  by (simp add: listProjects_def)

lemma listProjects_empty_root:
  "Path_readDir getProjectsFolder w = (Inr [], w') \<Longrightarrow> listProjects w = (Inr [], w')"
proof -
  assume r: "Path_readDir getProjectsFolder w = (Inr [], w')"
  then have "w' = w"
    by (auto simp: Path_readDir_def raw_readDir_def split: option.splits node.splits)
  with r show ?thesis
    by (simp add: listProjects_def)
qed

text \<open>
  C5. \<^verbatim>\<open>listProjects\<close> returns the empty list when the projects root is absent or
  empty, and after creating N projects it returns exactly N entries with the
  projects' names. The first part holds in the empty world. After
  \<^verbatim>\<open>createProject("Demo")\<close> the projects root holds the folders \<open>Demo\<close> and \<open>assets\<close>
  and the file \<open>manifest.json\<close>; \<^verbatim>\<open>listProjects\<close> opens every folder, \<open>assets\<close> has no
  manifest, and the listing is rejected.
\<close>

theorem listProjects_after_create:
  "fst (listProjects empty_world) = Inr []
   \<and> (case createProject ''Demo'' empty_world of
         (Inl e, w1) \<Rightarrow> False
       | (Inr p, w1) \<Rightarrow>
           fst (Path_readDir getProjectsFolder w1) =
             Inr [\<lparr>name_entry = ''Demo'', isDirectory = True\<rparr>,
                  \<lparr>name_entry = ''assets'', isDirectory = True\<rparr>,
                  \<lparr>name_entry = ''manifest.json'', isDirectory = False\<rparr>]
           \<and> fst (openProject (ByName ''assets'') w1) = Inl IOFailure
           \<and> fst (listProjects w1) = Inl IOFailure)"
  by code_simp

text \<open>
  The listing where the awaited write lands before the creations: it is rejected
  after the first call of \<^verbatim>\<open>createProject\<close> (which is itself rejected) and after a
  second call that returns the project.
\<close>

lemma write_first_listing:
  "(case createProject_write_first ''Demo'' empty_world of
      (res1, w1) \<Rightarrow>
        fst (listProjects w1) = Inl IOFailure
        \<and> (case createProject_write_first ''Demo'' w1 of
              (Inl e, w2) \<Rightarrow> False
            | (Inr p, w2) \<Rightarrow>
                fst (openProject (ByName ''Demo'') w2) = Inr p
                \<and> fst (openProject (ByName ''assets'') w2) = Inl IOFailure
                \<and> fst (listProjects w2) = Inl IOFailure))"
  by code_simp

end
